theory Spec2Isabelle
  imports Main
begin

section \<open>DynamoDBConnectionManager: data model\<close>

text \<open>
  The embedding follows \<^verbatim>\<open>src/packages/aws-lambda-graphql/src/DynamoDBConnectionManager.ts\<close>.
  A JavaScript object is a record; a property that may be missing is an \<open>option\<close>.
  Numbers are taken integral (\<open>int\<close>): the retry counter, the delay in milliseconds
  and instants in UNIX seconds.
\<close>

text \<open>\<^verbatim>\<open>IConnectEvent\<close>: the two properties the manager reads; any further property of
  the event lives in the record's extension.\<close>

record IConnectEvent =
  connectionId :: string
  endpoint :: string

text \<open>\<^verbatim>\<open>IConnectionData\<close>: \<open>endpoint\<close>, \<open>context\<close> (an object, here an association list)
  and \<open>isInitialized\<close>.\<close>

record IConnectionData =
  endpoint :: string
  context' :: "(string \<times> string) list"
  isInitialized :: bool

text \<open>\<^verbatim>\<open>DynamoDBConnection\<close> (\<^verbatim>\<open>IConnection\<close> with the optional \<open>ttl\<close>, in UNIX seconds), and
  the items of the connections table, which carry \<open>createdAt\<close> as well. \<open>createdAt\<close>
  holds the string \<^verbatim>\<open>Date.prototype.toString\<close> gives for an instant; the model keeps the
  instant it renders (to the second).\<close>

record DynamoDBConnection =
  id' :: string
  data :: IConnectionData
  createdAt :: "int option"
  ttl :: "int option"

text \<open>\<^verbatim>\<open>HydrateConnectionOptions\<close>: both properties are optional.\<close>

record HydrateConnectionOptions =
  retryCount :: "int option"
  timeout :: "int option"

text \<open>Values a \<^verbatim>\<open>throw\<close> can carry: the manager's own \<^verbatim>\<open>ConnectionNotFoundError\<close>, the
  runtime's \<^verbatim>\<open>ReferenceError\<close>, and whatever a collaborator rejects with (its
  \<open>statusCode\<close> property when it is a number, and its message).\<close>

datatype js_error =
    ConnectionNotFoundError string
  | ReferenceError string
  | Thrown "int option" string

fun statusCode :: "js_error \<Rightarrow> int option" where
  "statusCode (Thrown code msg) = code"
| "statusCode (ConnectionNotFoundError msg) = None"
| "statusCode (ReferenceError msg) = None"

text \<open>The commands of \<^verbatim>\<open>@aws-sdk/lib-dynamodb\<close> the manager builds, with the properties it
  gives them: \<open>TableName\<close> and \<open>Key.id\<close> first; \<open>Item\<close> for a put; \<open>UpdateExpression\<close>,
  \<open>ExpressionAttributeValues\<close> and \<open>ExpressionAttributeNames\<close> for an update.\<close>

datatype db_command =
    GetCommand string string
  | PutCommand string DynamoDBConnection
  | UpdateCommand string string string "(string \<times> IConnectionData) list" "(string \<times> string) list"
  | DeleteCommand string string

datatype db_output = Output (Item: "DynamoDBConnection option")

text \<open>The transport client (constructed from its endpoint) and its two commands:
  \<open>ConnectionId\<close> and \<open>Data\<close>, and \<open>ConnectionId\<close>.\<close>

datatype gw_client = ApiGatewayManagementApiClient string

datatype gw_command =
    PostToConnectionCommand string string
  | DeleteConnectionCommand string

text \<open>The fields of the class. \<open>ttl\<close> is \<^verbatim>\<open>number | false\<close>: \<open>None\<close> stands for \<^verbatim>\<open>false\<close>.
  The fields \<open>db\<close> and \<open>subscriptions\<close> refer to the collaborators, whose behaviour is
  given by the environment below.\<close>

record manager =
  apiGatewayManager :: "gw_client option"
  connectionsTable :: string
  ttl :: "int option"
  debug :: bool

section \<open>Collaborators and effects\<close>

text \<open>The world outside the manager: the clock (UNIX seconds), the items of the tables
  by table name and key, the subscription registry (connection id and subscription),
  the sessions open at the gateway and the payloads delivered.\<close>

record world =
  clock :: int
  tables :: "string \<times> string \<Rightarrow> DynamoDBConnection option"
  registry :: "(string \<times> string) list"
  sessions :: "string list"
  delivered :: "(string \<times> string) list"

text \<open>Everything the manager calls is recorded, with its outcome, in the order of the
  calls.\<close>

datatype log_arg = Str string | Obj IConnectionData

datatype event =
    DbSend db_command "js_error + db_output"
  | UnsubscribeAll string "js_error + unit"
  | ApiSend gw_client gw_command "js_error + unit"
  | SetTimeout int
  | ConsoleLog "log_arg list"
  | ConsoleInfo "log_arg list"
  | Construct gw_client

text \<open>The behaviour of the collaborators and of the runtime is a parameter: any function
  of the world. \<open>db_send\<close> is \<^verbatim>\<open>DynamoDBDocumentClient.send\<close>, \<open>api_send\<close> is
  \<^verbatim>\<open>ApiGatewayManagementApiClient.send\<close>, \<open>timer\<close> is what happens to the world while the
  flow is suspended by \<^verbatim>\<open>setTimeout\<close>, and \<open>first_rejection\<close> tells, when both promises
  given to \<^verbatim>\<open>Promise.all\<close> reject, whether the first one rejects first.\<close>

record env =
  db_send :: "db_command \<Rightarrow> world \<Rightarrow> (js_error + db_output) \<times> world"
  unsubscribeAllByConnectionId :: "string \<Rightarrow> world \<Rightarrow> (js_error + unit) \<times> world"
  api_send :: "gw_client \<Rightarrow> gw_command \<Rightarrow> world \<Rightarrow> (js_error + unit) \<times> world"
  timer :: "int \<Rightarrow> world \<Rightarrow> world"
  first_rejection :: "world \<Rightarrow> bool"

text \<open>The state threaded through every method: the object itself (\<^verbatim>\<open>this\<close>), the calls
  made so far and the world.\<close>

record state =
  self :: manager
  calls :: "event list"
  world :: world

definition issued :: "state \<Rightarrow> state \<Rightarrow> event list" where
  "issued s s' = drop (length (calls s)) (calls s')"

definition db_call :: "env \<Rightarrow> db_command \<Rightarrow> state \<Rightarrow> (js_error + db_output) \<times> state" where
  "db_call env cmd s =
     (case db_send env cmd (world s) of
        (r, w) \<Rightarrow> (r, s\<lparr>calls := calls s @ [DbSend cmd r], world := w\<rparr>))"

definition unsubscribe_call :: "env \<Rightarrow> string \<Rightarrow> state \<Rightarrow> (js_error + unit) \<times> state" where
  "unsubscribe_call env cid s =
     (case unsubscribeAllByConnectionId env cid (world s) of
        (r, w) \<Rightarrow> (r, s\<lparr>calls := calls s @ [UnsubscribeAll cid r], world := w\<rparr>))"

definition api_call :: "env \<Rightarrow> gw_client \<Rightarrow> gw_command \<Rightarrow> state \<Rightarrow> (js_error + unit) \<times> state" where
  "api_call env client cmd s =
     (case api_send env client cmd (world s) of
        (r, w) \<Rightarrow> (r, s\<lparr>calls := calls s @ [ApiSend client cmd r], world := w\<rparr>))"

definition wait :: "env \<Rightarrow> int \<Rightarrow> state \<Rightarrow> state" where
  "wait env t s = s\<lparr>calls := calls s @ [SetTimeout t], world := timer env t (world s)\<rparr>"

definition console_log :: "log_arg list \<Rightarrow> state \<Rightarrow> state" where
  "console_log args s = s\<lparr>calls := calls s @ [ConsoleLog args]\<rparr>"

definition console_info :: "log_arg list \<Rightarrow> state \<Rightarrow> state" where
  "console_info args s = s\<lparr>calls := calls s @ [ConsoleInfo args]\<rparr>"

section \<open>Helpers\<close>

text \<open>Both helpers read the clock themselves; here they are given the clock of the world
  at the moment of the call.\<close>

text \<open>Modelled from the spec: \<^verbatim>\<open>computeTTL\<close> of \<^verbatim>\<open>./helpers\<close> is not among the sources. The
  spec: "computes \<open>ttl\<close> from configured TTL seconds (absolute instant = now + seconds)".\<close>

definition computeTTL :: "int \<Rightarrow> int \<Rightarrow> int" where
  "computeTTL now seconds = now + seconds"

text \<open>Modelled from the spec: \<^verbatim>\<open>isTTLExpired\<close> of \<^verbatim>\<open>./helpers/isTTLExpired\<close> is not among the
  sources. The spec: "A record with \<open>ttl\<close> set and already elapsed is logically absent",
  "a record whose \<open>ttl\<close> is strictly in the past".\<close>

definition isTTLExpired :: "int \<Rightarrow> int option \<Rightarrow> bool" where
  "isTTLExpired now t = (case t of None \<Rightarrow> False | Some x \<Rightarrow> x < now)"

section \<open>hydrateConnection\<close>

text \<open>The \<^verbatim>\<open>for\<close> loop of lines 127 to 145, from counter \<open>i\<close>: \<open>Inl\<close> when the read throws,
  \<open>Inr (Some c)\<close> at the \<^verbatim>\<open>break\<close>, \<open>Inr None\<close> when the counter passes \<open>retryCount\<close>.\<close>

function hydrate_loop ::
  "env \<Rightarrow> string \<Rightarrow> int \<Rightarrow> int \<Rightarrow> int \<Rightarrow> state \<Rightarrow> (js_error + DynamoDBConnection option) \<times> state"
where
  "hydrate_loop env cid rc t i s =
     (if i \<le> rc then
        (case db_call env (GetCommand (connectionsTable (self s)) cid) s of
           (Inl e, s1) \<Rightarrow> (Inl e, s1)
         | (Inr result, s1) \<Rightarrow>
             (case Item result of
                Some connection \<Rightarrow> (Inr (Some connection), s1)
              | None \<Rightarrow> hydrate_loop env cid rc t (i + 1) (wait env t s1)))
      else (Inr None, s))"
  by pat_completeness auto
termination
  by (relation "measure (\<lambda>(env, cid, rc, t, i, s). nat (rc + 1 - i))") auto

declare hydrate_loop.simps [simp del]

text \<open>The destructuring of line 123 with its defaults, for \<open>options\<close> that may be missing.\<close>

definition retryCount_of :: "HydrateConnectionOptions option \<Rightarrow> int" where
  "retryCount_of options =
     (case options of None \<Rightarrow> 0
      | Some opts \<Rightarrow> (case retryCount opts of None \<Rightarrow> 0 | Some n \<Rightarrow> n))"

definition timeout_of :: "HydrateConnectionOptions option \<Rightarrow> int" where
  "timeout_of options =
     (case options of None \<Rightarrow> 50
      | Some opts \<Rightarrow> (case timeout opts of None \<Rightarrow> 50 | Some n \<Rightarrow> n))"

text \<open>The error of line 148.\<close>

definition not_found :: "string \<Rightarrow> js_error" where
  "not_found cid = ConnectionNotFoundError (''Connection '' @ cid @ '' not found'')"

text \<open>Lines 119 to 152: the loop, then the test of line 147 on what it left in
  \<open>connection\<close>.\<close>

definition hydrateConnection ::
  "env \<Rightarrow> string \<Rightarrow> HydrateConnectionOptions option \<Rightarrow> state \<Rightarrow> (js_error + DynamoDBConnection) \<times> state"
where
  "hydrateConnection env cid options s =
     (case hydrate_loop env cid (retryCount_of options) (timeout_of options) 0 s of
        (Inl e, s1) \<Rightarrow> (Inl e, s1)
      | (Inr None, s1) \<Rightarrow> (Inl (not_found cid), s1)
      | (Inr (Some connection), s1) \<Rightarrow>
          (if isTTLExpired (clock (world s1)) (DynamoDBConnection.ttl connection)
           then (Inl (not_found cid), s1)
           else (Inr connection, s1)))"

section \<open>setConnectionData\<close>

text \<open>Lines 154 to 170: one \<open>UpdateCommand\<close>, whose rejection is the method's.\<close>

definition setConnectionData ::
  "env \<Rightarrow> IConnectionData \<Rightarrow> DynamoDBConnection \<Rightarrow> state \<Rightarrow> (js_error + unit) \<times> state"
where
  "setConnectionData env newData connection s =
     (case db_call env
             (UpdateCommand (connectionsTable (self s)) (id' connection)
                ''set #data = :data'' [('':data'', newData)] [(''#data'', ''data'')]) s of
        (Inl e, s1) \<Rightarrow> (Inl e, s1)
      | (Inr result, s1) \<Rightarrow> (Inr (), s1))"

section \<open>registerConnection\<close>

text \<open>The object \<open>connection\<close> of lines 176 to 179 has \<open>id\<close> and \<open>data\<close> only; the
  \<open>Item\<close> of the put is built from it, with \<open>createdAt\<close> and, unless \<open>ttl\<close> is \<^verbatim>\<open>false\<close>,
  \<open>ttl\<close>.\<close>

definition registerConnection ::
  "env \<Rightarrow> 'a IConnectEvent_scheme \<Rightarrow> state \<Rightarrow> (js_error + DynamoDBConnection) \<times> state"
where
  "registerConnection env ev s =
     (let connection =
            \<lparr>id' = connectionId ev,
             data = \<lparr>IConnectionData.endpoint = IConnectEvent.endpoint ev,
                     context' = [], isInitialized = False\<rparr>,
             createdAt = None, DynamoDBConnection.ttl = None\<rparr>;
          s0 = (if debug (self s)
                then console_log [Str (''Connected '' @ id' connection), Obj (data connection)] s
                else s);
          item =
            \<lparr>id' = id' connection,
             data = data connection,
             createdAt = Some (clock (world s0)),
             DynamoDBConnection.ttl =
               (case manager.ttl (self s0) of
                  None \<Rightarrow> None
                | Some seconds \<Rightarrow> Some (computeTTL (clock (world s0)) seconds))\<rparr>
      in case db_call env (PutCommand (connectionsTable (self s0)) item) s0 of
           (Inl e, s1) \<Rightarrow> (Inl e, s1)
         | (Inr result, s1) \<Rightarrow> (Inr connection, s1))"

section \<open>createApiGatewayManager\<close>

text \<open>The test of the regular expression \<^verbatim>\<open>/^wss?:\/\//i\<close>.\<close>

definition test_ws_scheme :: "string \<Rightarrow> bool" where
  "test_ws_scheme e =
     (case e of
        w # s # rest \<Rightarrow>
          (w = CHR ''w'' \<or> w = CHR ''W'') \<and> (s = CHR ''s'' \<or> s = CHR ''S'') \<and>
          (take 3 rest = ''://'' \<or>
           (case rest of
              [] \<Rightarrow> False
            | c # rest' \<Rightarrow> (c = CHR ''s'' \<or> c = CHR ''S'') \<and> take 3 rest' = ''://''))
      | _ \<Rightarrow> False)"

text \<open>Evaluating an identifier: its value when a binding is in scope, a
  \<^verbatim>\<open>ReferenceError\<close> otherwise.\<close>

definition resolve :: "(string \<times> log_arg) list \<Rightarrow> string \<Rightarrow> js_error + log_arg" where
  "resolve scope x =
     (case map_of scope x of
        None \<Rightarrow> Inl (ReferenceError (x @ '' is not defined''))
      | Some v \<Rightarrow> Inr v)"

text \<open>Lines 253 to 269. At line 264 the only value binding of the method is its
  parameter \<open>endpoint\<close>; the module binds its imports, \<open>DEFAULT_TTL\<close> and the class, none
  named \<open>endpoint1\<close>, and the global object is taken to define no \<open>endpoint1\<close> either.\<close>

definition createApiGatewayManager :: "string \<Rightarrow> state \<Rightarrow> (js_error + gw_client) \<times> state" where
  "createApiGatewayManager endpoint0 s =
     (case apiGatewayManager (self s) of
        Some client \<Rightarrow> (Inr client, s)
      | None \<Rightarrow>
          (let s1 = console_info [Str ''endpoint'', Str endpoint0] s;
               endpoint = (if \<not> test_ws_scheme endpoint0 then ''wss://'' @ endpoint0 else endpoint0)
           in case resolve [(''endpoint'', Str endpoint)] ''endpoint1'' of
                Inl e \<Rightarrow> (Inl e, s1)
              | Inr endpoint1 \<Rightarrow>
                  (let s2 = console_info [Str ''endpoint1'', endpoint1] s1;
                       client = ApiGatewayManagementApiClient endpoint;
                       s3 = s2\<lparr>self := (self s2)\<lparr>apiGatewayManager := Some client\<rparr>,
                               calls := calls s2 @ [Construct client]\<rparr>
                   in (Inr client, s3))))"

section \<open>unregisterConnection, sendToConnection, closeConnection\<close>

text \<open>\<^verbatim>\<open>Promise.all\<close> of two promises: fulfilled when both are, rejected with the
  rejection that comes first otherwise.\<close>

definition promise_all :: "bool \<Rightarrow> js_error + db_output \<Rightarrow> js_error + unit \<Rightarrow> js_error + unit" where
  "promise_all first r1 r2 =
     (case r1 of
        Inr v1 \<Rightarrow> (case r2 of Inr v2 \<Rightarrow> Inr () | Inl e2 \<Rightarrow> Inl e2)
      | Inl e1 \<Rightarrow> (case r2 of Inr v2 \<Rightarrow> Inl e1 | Inl e2 \<Rightarrow> Inl (if first then e1 else e2)))"

text \<open>Lines 223 to 235. Both requests are started, the delete first, before either is
  awaited (each returns a promise); each is taken as one step on the world.\<close>

definition unregisterConnection ::
  "env \<Rightarrow> DynamoDBConnection \<Rightarrow> state \<Rightarrow> (js_error + unit) \<times> state"
where
  "unregisterConnection env connection s =
     (case db_call env (DeleteCommand (connectionsTable (self s)) (id' connection)) s of
        (r1, s1) \<Rightarrow>
          (case unsubscribe_call env (id' connection) s1 of
             (r2, s2) \<Rightarrow> (promise_all (first_rejection env (world s2)) r1 r2, s2)))"

text \<open>Lines 201 to 221: the inner \<open>case\<close> is the body of the \<^verbatim>\<open>try\<close>, the outer one the
  \<^verbatim>\<open>catch\<close>.\<close>

definition sendToConnection ::
  "env \<Rightarrow> DynamoDBConnection \<Rightarrow> string \<Rightarrow> state \<Rightarrow> (js_error + unit) \<times> state"
where
  "sendToConnection env connection payload s =
     (case (case createApiGatewayManager (IConnectionData.endpoint (data connection)) s of
              (Inl e, s1) \<Rightarrow> (Inl e, s1)
            | (Inr client, s1) \<Rightarrow>
                api_call env client (PostToConnectionCommand (id' connection) payload) s1) of
        (Inr sent, s2) \<Rightarrow> (Inr (), s2)
      | (Inl e, s2) \<Rightarrow>
          (if statusCode e = Some 410 then unregisterConnection env connection s2
           else (Inl e, s2)))"

text \<open>Lines 237 to 246.\<close>

definition closeConnection ::
  "env \<Rightarrow> DynamoDBConnection \<Rightarrow> state \<Rightarrow> (js_error + unit) \<times> state"
where
  "closeConnection env connection s =
     (let s0 = (if debug (self s)
                then console_log [Str ''Disconnected '', Str (id' connection)] s
                else s)
      in case createApiGatewayManager (IConnectionData.endpoint (data connection)) s0 of
           (Inl e, s1) \<Rightarrow> (Inl e, s1)
         | (Inr client, s1) \<Rightarrow> api_call env client (DeleteConnectionCommand (id' connection)) s1)"

section \<open>Reference collaborators\<close>

text \<open>In-memory stand-ins for the three external services, after their interface
  contracts; they are not code of the repository. They give the store-level reading
  of a command and concrete environments to run the manager in.\<close>

primrec tokens :: "string \<Rightarrow> string list" where
  "tokens [] = [[]]"
| "tokens (c # cs) =
     (if c = CHR '' '' then [] # tokens cs
      else (case tokens cs of [] \<Rightarrow> [[c]] | tok # toks \<Rightarrow> (c # tok) # toks))"

text \<open>An update expression of the form \<^verbatim>\<open>set <name> = <value>\<close>, with its placeholders
  resolved: the attribute to assign and the value.\<close>

definition update_expression ::
  "string \<Rightarrow> (string \<times> IConnectionData) list \<Rightarrow> (string \<times> string) list
     \<Rightarrow> (string \<times> IConnectionData) option"
where
  "update_expression expr vals names =
     (case tokens expr of
        [kw, n, eq, v] \<Rightarrow>
          (if kw = ''set'' \<and> eq = ''='' then
             (case map_of names n of
                None \<Rightarrow> None
              | Some attr \<Rightarrow> (case map_of vals v of None \<Rightarrow> None | Some d \<Rightarrow> Some (attr, d)))
           else None)
      | _ \<Rightarrow> None)"

text \<open>A table store: get reads, put overwrites, delete removes, and an update assigns
  the attribute \<open>data\<close> of the item with the key, creating the item when there is none.\<close>

definition dynamo_send :: "db_command \<Rightarrow> world \<Rightarrow> (js_error + db_output) \<times> world" where
  "dynamo_send cmd w =
     (case cmd of
        GetCommand tbl k \<Rightarrow> (Inr (Output (tables w (tbl, k))), w)
      | PutCommand tbl item \<Rightarrow>
          (Inr (Output None), w\<lparr>tables := (tables w)((tbl, id' item) \<mapsto> item)\<rparr>)
      | DeleteCommand tbl k \<Rightarrow> (Inr (Output None), w\<lparr>tables := (tables w)((tbl, k) := None)\<rparr>)
      | UpdateCommand tbl k expr vals names \<Rightarrow>
          (case update_expression expr vals names of
             None \<Rightarrow> (Inl (Thrown (Some 400) ''ValidationException''), w)
           | Some (attr, d) \<Rightarrow>
               (if attr = ''data'' then
                  (Inr (Output None),
                   w\<lparr>tables := (tables w)((tbl, k) \<mapsto>
                        (case tables w (tbl, k) of
                           None \<Rightarrow> \<lparr>id' = k, data = d, createdAt = None,
                                     DynamoDBConnection.ttl = None\<rparr>
                         | Some item \<Rightarrow> item\<lparr>data := d\<rparr>))\<rparr>)
                else (Inl (Thrown (Some 400) ''ValidationException''), w))))"

definition registry_unsubscribeAll :: "string \<Rightarrow> world \<Rightarrow> (js_error + unit) \<times> world" where
  "registry_unsubscribeAll cid w =
     (Inr (), w\<lparr>registry := filter (\<lambda>(c, sub). c \<noteq> cid) (registry w)\<rparr>)"

text \<open>A gateway: a request for a session that is not open is answered 410 (gone).\<close>

definition gateway_send :: "gw_client \<Rightarrow> gw_command \<Rightarrow> world \<Rightarrow> (js_error + unit) \<times> world" where
  "gateway_send client cmd w =
     (case cmd of
        PostToConnectionCommand cid payload \<Rightarrow>
          (if List.member (sessions w) cid
           then (Inr (), w\<lparr>delivered := delivered w @ [(cid, payload)]\<rparr>)
           else (Inl (Thrown (Some 410) ''GoneException''), w))
      | DeleteConnectionCommand cid \<Rightarrow>
          (if List.member (sessions w) cid
           then (Inr (), w\<lparr>sessions := removeAll cid (sessions w)\<rparr>)
           else (Inl (Thrown (Some 410) ''GoneException''), w)))"

definition reference_env :: env where
  "reference_env =
     \<lparr>db_send = dynamo_send,
      unsubscribeAllByConnectionId = registry_unsubscribeAll,
      api_send = gateway_send,
      timer = (\<lambda>t w. w),
      first_rejection = (\<lambda>w. True)\<rparr>"

section \<open>Traces and example inputs\<close>

text \<open>\<open>k\<close> rounds of the retry loop that find nothing: a read answered with no item,
  then a wait of \<open>t\<close>.\<close>

definition misses :: "string \<Rightarrow> string \<Rightarrow> int \<Rightarrow> nat \<Rightarrow> event list" where
  "misses tbl cid t k =
     concat (replicate k [DbSend (GetCommand tbl cid) (Inr (Output None)), SetTimeout t])"

text \<open>The world after \<open>k\<close> such rounds: each round sends the read to the store and then
  lets the timer run.\<close>

fun after_misses :: "env \<Rightarrow> string \<Rightarrow> string \<Rightarrow> int \<Rightarrow> nat \<Rightarrow> world \<Rightarrow> world" where
  "after_misses env tbl cid t 0 w = w"
| "after_misses env tbl cid t (Suc k) w =
     after_misses env tbl cid t k (timer env t (snd (db_send env (GetCommand tbl cid) w)))"

fun is_read :: "event \<Rightarrow> bool" where
  "is_read (DbSend (GetCommand tbl k) r) = True"
| "is_read ev = False"

fun is_wait :: "event \<Rightarrow> bool" where
  "is_wait (SetTimeout t) = True"
| "is_wait ev = False"

fun is_storage :: "event \<Rightarrow> bool" where
  "is_storage (DbSend cmd r) = True"
| "is_storage ev = False"

fun is_registry :: "event \<Rightarrow> bool" where
  "is_registry (UnsubscribeAll cid r) = True"
| "is_registry ev = False"

fun is_console :: "event \<Rightarrow> bool" where
  "is_console (ConsoleLog args) = True"
| "is_console (ConsoleInfo args) = True"
| "is_console ev = False"

text \<open>A manager as the constructor leaves it with its defaults (table \<open>Connections\<close>,
  \<open>ttl\<close> 7200, no debug output), with and without a client of the caller's, and a world
  at instant 1000 with nothing stored.\<close>

definition default_manager :: manager where
  "default_manager =
     \<lparr>apiGatewayManager = None, connectionsTable = ''Connections'',
      manager.ttl = Some 7200, debug = False\<rparr>"

definition override_manager :: manager where
  "override_manager =
     default_manager\<lparr>apiGatewayManager := Some (ApiGatewayManagementApiClient ''http://localhost:3001'')\<rparr>"

definition empty_world :: world where
  "empty_world =
     \<lparr>clock = 1000, tables = (\<lambda>k. None), registry = [], sessions = [], delivered = []\<rparr>"

definition c1 :: DynamoDBConnection where
  "c1 =
     \<lparr>id' = ''c1'',
      data = \<lparr>IConnectionData.endpoint = ''host/path'', context' = [], isInitialized = False\<rparr>,
      createdAt = Some 100, DynamoDBConnection.ttl = Some 900\<rparr>"

definition c1_world :: world where
  "c1_world =
     empty_world\<lparr>tables := (tables empty_world)((''Connections'', ''c1'') \<mapsto> c1),
                 registry := [(''c1'', ''sub1''), (''c2'', ''sub2'')]\<rparr>"

text \<open>A connect event with a property beyond the two the manager reads.\<close>

definition connect_event :: "string IConnectEvent_scheme" where
  "connect_event =
     \<lparr>connectionId = ''c1'', IConnectEvent.endpoint = ''host/path'',
      \<dots> = ''isInitialized: true''\<rparr>"

text \<open>Collaborators that fail: a gateway answering 500, a table store and a registry that
  reject every request.\<close>

definition failing_db :: "db_command \<Rightarrow> world \<Rightarrow> (js_error + db_output) \<times> world" where
  "failing_db cmd w = (Inl (Thrown (Some 503) ''ServiceUnavailable''), w)"

definition failing_gateway :: "gw_client \<Rightarrow> gw_command \<Rightarrow> world \<Rightarrow> (js_error + unit) \<times> world" where
  "failing_gateway client cmd w = (Inl (Thrown (Some 500) ''InternalServerError''), w)"

definition failing_registry :: "string \<Rightarrow> world \<Rightarrow> (js_error + unit) \<times> world" where
  "failing_registry cid w = (Inl (Thrown None ''unsubscribe failed''), w)"

text \<open>An environment in which time passes: every request to the table store takes a
  second, and a wait of \<open>t\<close> milliseconds takes \<open>t div 1000\<close> seconds.\<close>

definition ticking_env :: env where
  "ticking_env =
     reference_env
       \<lparr>db_send := (\<lambda>cmd w. case dynamo_send cmd w of
                                (r, w') \<Rightarrow> (r, w'\<lparr>clock := clock w' + 1\<rparr>)),
        timer := (\<lambda>t w. w\<lparr>clock := clock w + t div 1000\<rparr>)\<rparr>"

definition start :: "manager \<Rightarrow> world \<Rightarrow> state" where
  "start m w = \<lparr>self = m, calls = [], world = w\<rparr>"

section \<open>Facts about the primitive calls\<close>

lemma db_call_facts:
  "db_call env cmd s = (r, s1) \<Longrightarrow>
     self s1 = self s \<and> calls s1 = calls s @ [DbSend cmd r] \<and>
     db_send env cmd (world s) = (r, world s1)"
  by (auto simp: db_call_def split: prod.splits)

lemma wait_facts:
  "self (wait env t s) = self s \<and> calls (wait env t s) = calls s @ [SetTimeout t]"
  by (simp add: wait_def)

lemma filter_read_misses:
  "filter is_read (misses tbl cid t k) = replicate k (DbSend (GetCommand tbl cid) (Inr (Output None)))"
  by (induction k) (simp_all add: misses_def)

lemma filter_wait_misses: "filter is_wait (misses tbl cid t k) = replicate k (SetTimeout t)"
  by (induction k) (simp_all add: misses_def)


lemma test_ws_scheme_examples:
  "test_ws_scheme ''wss://host/path'' \<and> test_ws_scheme ''ws://host'' \<and>
   test_ws_scheme ''WsS://host'' \<and> \<not> test_ws_scheme ''w://host'' \<and>
   \<not> test_ws_scheme ''host/path'' \<and> \<not> test_ws_scheme ''wsss://host'' \<and>
   \<not> test_ws_scheme ''https://host''"
  by (simp add: test_ws_scheme_def)

section \<open>The retry loop\<close>

text \<open>Every run of the loop has one of three shapes: rounds that find nothing until the
  counter passes \<open>retryCount\<close>; or fewer such rounds and then a read that yields an
  item; or fewer such rounds and then a read that throws.\<close>

lemma hydrate_loop_shape:
  "hydrate_loop env cid rc t i s = (r, s') \<Longrightarrow>
   self s' = self s \<and>
   (\<exists>k. (case r of
      Inr None \<Rightarrow>
        k = nat (rc + 1 - i) \<and>
        calls s' = calls s @ misses (connectionsTable (self s)) cid t k
    | Inr (Some c) \<Rightarrow>
        int k \<le> rc - i \<and>
        calls s' = calls s @ misses (connectionsTable (self s)) cid t k @
          [DbSend (GetCommand (connectionsTable (self s)) cid) (Inr (Output (Some c)))]
    | Inl e \<Rightarrow>
        int k \<le> rc - i \<and>
        calls s' = calls s @ misses (connectionsTable (self s)) cid t k @
          [DbSend (GetCommand (connectionsTable (self s)) cid) (Inl e)]))"
proof (induction env cid rc t i s arbitrary: r s' rule: hydrate_loop.induct)
  case (1 env cid rc t i s)
  let ?tbl = "connectionsTable (self s)"
  let ?get = "GetCommand ?tbl cid"
  show ?case
  proof (cases "i \<le> rc")
    case False
    with "1.prems" have "r = Inr None" "s' = s"
      by (simp_all add: hydrate_loop.simps)
    with False show ?thesis by (simp add: misses_def)
  next
    case True
    obtain x s1 where call: "db_call env ?get s = (x, s1)" by force
    note f = db_call_facts [OF call]
    show ?thesis
    proof (cases x)
      case (Inl e)
      with True call "1.prems" have "r = Inl e" "s' = s1"
        by (simp_all add: hydrate_loop.simps)
      with f Inl True show ?thesis
        by (auto simp: misses_def intro: exI [of _ 0])
    next
      case (Inr result)
      show ?thesis
      proof (cases "Item result")
        case (Some c)
        with Inr True call "1.prems" have "r = Inr (Some c)" "s' = s1"
          by (simp_all add: hydrate_loop.simps)
        moreover from Some have "result = Output (Some c)" by (cases result) simp
        ultimately show ?thesis using f Inr True
          by (auto simp: misses_def intro: exI [of _ 0])
      next
        case None
        then have res: "result = Output None" by (cases result) simp
        from None Inr True call "1.prems"
        have again: "hydrate_loop env cid rc t (i + 1) (wait env t s1) = (r, s')"
          by (simp add: hydrate_loop.simps)
        have c2: "calls (wait env t s1) = calls s @ misses ?tbl cid t 1"
          and s2: "self (wait env t s1) = self s"
          using f Inr res by (simp_all add: wait_facts misses_def)
        note ih = "1.IH" [OF True call [symmetric] Inr None again, unfolded s2]
        from ih obtain k where k: "(case r of
            Inr None \<Rightarrow>
              k = nat (rc + 1 - (i + 1)) \<and>
              calls s' = calls (wait env t s1) @ misses ?tbl cid t k
          | Inr (Some c) \<Rightarrow>
              int k \<le> rc - (i + 1) \<and>
              calls s' = calls (wait env t s1) @ misses ?tbl cid t k @
                [DbSend ?get (Inr (Output (Some c)))]
          | Inl e \<Rightarrow>
              int k \<le> rc - (i + 1) \<and>
              calls s' = calls (wait env t s1) @ misses ?tbl cid t k @ [DbSend ?get (Inl e)])"
          and same: "self s' = self s" by auto
        have "(case r of
            Inr None \<Rightarrow>
              Suc k = nat (rc + 1 - i) \<and> calls s' = calls s @ misses ?tbl cid t (Suc k)
          | Inr (Some c) \<Rightarrow>
              int (Suc k) \<le> rc - i \<and>
              calls s' = calls s @ misses ?tbl cid t (Suc k) @
                [DbSend ?get (Inr (Output (Some c)))]
          | Inl e \<Rightarrow>
              int (Suc k) \<le> rc - i \<and>
              calls s' = calls s @ misses ?tbl cid t (Suc k) @ [DbSend ?get (Inl e)])"
          using k c2 True by (auto simp: misses_def split: sum.splits option.splits)
        with same show ?thesis by blast
      qed
    qed
  qed
qed

text \<open>The method adds nothing after the loop: it only decides between returning and
  throwing.\<close>

lemma hydrateConnection_loop:
  "hydrateConnection env cid options s = (r, s') \<Longrightarrow>
     \<exists>x. hydrate_loop env cid (retryCount_of options) (timeout_of options) 0 s = (x, s') \<and>
       r = (case x of
              Inl e \<Rightarrow> Inl e
            | Inr None \<Rightarrow> Inl (not_found cid)
            | Inr (Some c) \<Rightarrow>
                if isTTLExpired (clock (world s')) (DynamoDBConnection.ttl c)
                then Inl (not_found cid) else Inr c)"
  by (auto simp: hydrateConnection_def split: prod.splits sum.splits option.splits if_splits)

lemma hydrateConnection_shape:
  assumes run: "hydrateConnection env cid options s = (r, s')"
  obtains x k where
    "r = (case x of
            Inl e \<Rightarrow> Inl e
          | Inr None \<Rightarrow> Inl (not_found cid)
          | Inr (Some c) \<Rightarrow>
              if isTTLExpired (clock (world s')) (DynamoDBConnection.ttl c)
              then Inl (not_found cid) else Inr c)"
    and "case x of
           Inr None \<Rightarrow>
             k = nat (retryCount_of options + 1) \<and>
             issued s s' = misses (connectionsTable (self s)) cid (timeout_of options) k
         | Inr (Some c) \<Rightarrow>
             int k \<le> retryCount_of options \<and>
             issued s s' = misses (connectionsTable (self s)) cid (timeout_of options) k @
               [DbSend (GetCommand (connectionsTable (self s)) cid) (Inr (Output (Some c)))]
         | Inl e \<Rightarrow>
             int k \<le> retryCount_of options \<and>
             issued s s' = misses (connectionsTable (self s)) cid (timeout_of options) k @
               [DbSend (GetCommand (connectionsTable (self s)) cid) (Inl e)]"
proof -
  from hydrateConnection_loop [OF run] obtain x where
    loop: "hydrate_loop env cid (retryCount_of options) (timeout_of options) 0 s = (x, s')"
    and r: "r = (case x of
            Inl e \<Rightarrow> Inl e
          | Inr None \<Rightarrow> Inl (not_found cid)
          | Inr (Some c) \<Rightarrow>
              if isTTLExpired (clock (world s')) (DynamoDBConnection.ttl c)
              then Inl (not_found cid) else Inr c)"
    by blast
  from hydrate_loop_shape [OF loop] obtain k where "case x of
      Inr None \<Rightarrow>
        k = nat (retryCount_of options + 1 - 0) \<and>
        calls s' = calls s @ misses (connectionsTable (self s)) cid (timeout_of options) k
    | Inr (Some c) \<Rightarrow>
        int k \<le> retryCount_of options - 0 \<and>
        calls s' = calls s @ misses (connectionsTable (self s)) cid (timeout_of options) k @
          [DbSend (GetCommand (connectionsTable (self s)) cid) (Inr (Output (Some c)))]
    | Inl e \<Rightarrow>
        int k \<le> retryCount_of options - 0 \<and>
        calls s' = calls s @ misses (connectionsTable (self s)) cid (timeout_of options) k @
          [DbSend (GetCommand (connectionsTable (self s)) cid) (Inl e)]"
    by blast
  then have "case x of
      Inr None \<Rightarrow>
        k = nat (retryCount_of options + 1) \<and>
        issued s s' = misses (connectionsTable (self s)) cid (timeout_of options) k
    | Inr (Some c) \<Rightarrow>
        int k \<le> retryCount_of options \<and>
        issued s s' = misses (connectionsTable (self s)) cid (timeout_of options) k @
          [DbSend (GetCommand (connectionsTable (self s)) cid) (Inr (Output (Some c)))]
    | Inl e \<Rightarrow>
        int k \<le> retryCount_of options \<and>
        issued s s' = misses (connectionsTable (self s)) cid (timeout_of options) k @
          [DbSend (GetCommand (connectionsTable (self s)) cid) (Inl e)]"
    by (auto simp: issued_def split: sum.splits option.splits)
  with r that show thesis by blast
qed

text \<open>When the store answers every read of the rounds with no item, the loop runs all
  its rounds: the reads it logs are the store's answers, and the world is the one the
  store and the timer leave.\<close>

lemma hydrate_loop_misses:
  assumes absent: "\<forall>k<n. fst (db_send env (GetCommand (connectionsTable (self s)) cid)
                       (after_misses env (connectionsTable (self s)) cid t k (world s)))
                     = Inr (Output None)"
    and n: "n = nat (rc + 1 - i)"
  shows "hydrate_loop env cid rc t i s =
           (Inr None,
            s\<lparr>calls := calls s @ misses (connectionsTable (self s)) cid t n,
              world := after_misses env (connectionsTable (self s)) cid t n (world s)\<rparr>)"
  using absent n
proof (induction n arbitrary: i s)
  case 0
  then have "\<not> i \<le> rc" by simp
  then show ?case by (simp add: hydrate_loop.simps misses_def)
next
  case (Suc m)
  let ?tbl = "connectionsTable (self s)"
  let ?get = "GetCommand ?tbl cid"
  from Suc.prems have le: "i \<le> rc" and m: "m = nat (rc + 1 - (i + 1))" by simp_all
  from Suc.prems have "fst (db_send env ?get (world s)) = Inr (Output None)" by force
  then have call: "db_call env ?get s =
      (Inr (Output None),
       s\<lparr>calls := calls s @ [DbSend ?get (Inr (Output None))],
         world := snd (db_send env ?get (world s))\<rparr>)"
    by (auto simp: db_call_def split: prod.splits)
  let ?s2 = "wait env t
       (s\<lparr>calls := calls s @ [DbSend ?get (Inr (Output None))],
         world := snd (db_send env ?get (world s))\<rparr>)"
  have self2: "self ?s2 = self s"
    and world2: "world ?s2 = timer env t (snd (db_send env ?get (world s)))"
    and calls2: "calls ?s2 = calls s @ [DbSend ?get (Inr (Output None)), SetTimeout t]"
    by (simp_all add: wait_def)
  have "\<forall>k<m. fst (db_send env (GetCommand (connectionsTable (self ?s2)) cid)
                       (after_misses env (connectionsTable (self ?s2)) cid t k (world ?s2)))
                     = Inr (Output None)"
  proof (intro allI impI)
    fix k assume "k < m"
    then have "Suc k < Suc m" by simp
    with Suc.prems(1) have "fst (db_send env ?get (after_misses env ?tbl cid t (Suc k) (world s)))
        = Inr (Output None)" by blast
    then show "fst (db_send env (GetCommand (connectionsTable (self ?s2)) cid)
                       (after_misses env (connectionsTable (self ?s2)) cid t k (world ?s2)))
                     = Inr (Output None)"
      by (simp add: self2 world2)
  qed
  from Suc.IH [OF this m]
  have "hydrate_loop env cid rc t (i + 1) ?s2 =
      (Inr None,
       ?s2\<lparr>calls := calls ?s2 @ misses ?tbl cid t m,
            world := after_misses env ?tbl cid t m (world ?s2)\<rparr>)"
    by (simp add: self2)
  then have "hydrate_loop env cid rc t (i + 1) ?s2 =
      (Inr None,
       s\<lparr>calls := calls s @ misses ?tbl cid t (Suc m),
         world := after_misses env ?tbl cid t (Suc m) (world s)\<rparr>)"
    by (simp add: wait_def misses_def)
  with le call show ?case
    by (subst hydrate_loop.simps) simp
qed

lemma ticking_tables:
  "tables (after_misses ticking_env tbl cid t k w) = tables w"
  by (induction k arbitrary: w)
    (simp_all add: ticking_env_def reference_env_def dynamo_send_def)

text \<open>A run in which every read is answered with no item waits once after each read,
  the last one included.\<close>

lemma hydrateConnection_waits:
  assumes run: "hydrateConnection env cid options s = (r, s')"
    and absent: "\<forall>tbl k out. DbSend (GetCommand tbl k) out \<in> set (issued s s')
                   \<longrightarrow> out = Inr (Output None)"
  shows "filter is_wait (issued s s') =
           replicate (nat (retryCount_of options + 1)) (SetTimeout (timeout_of options))"
proof -
  let ?get = "GetCommand (connectionsTable (self s)) cid"
  from run obtain x k where shape: "case x of
           Inr None \<Rightarrow>
             k = nat (retryCount_of options + 1) \<and>
             issued s s' = misses (connectionsTable (self s)) cid (timeout_of options) k
         | Inr (Some c) \<Rightarrow>
             int k \<le> retryCount_of options \<and>
             issued s s' = misses (connectionsTable (self s)) cid (timeout_of options) k @
               [DbSend ?get (Inr (Output (Some c)))]
         | Inl e \<Rightarrow>
             int k \<le> retryCount_of options \<and>
             issued s s' = misses (connectionsTable (self s)) cid (timeout_of options) k @
               [DbSend ?get (Inl e)]"
    by (rule hydrateConnection_shape)
  show ?thesis
  proof (cases x)
    case (Inl e)
    with shape have "DbSend ?get (Inl e) \<in> set (issued s s')" by simp
    with absent show ?thesis by blast
  next
    case (Inr found)
    show ?thesis
    proof (cases found)
      case (Some c)
      with Inr shape have "DbSend ?get (Inr (Output (Some c))) \<in> set (issued s s')" by simp
      with absent have "Inr (Output (Some c)) = (Inr (Output None) :: js_error + db_output)"
        by blast
      then show ?thesis by simp
    next
      case None
      with Inr shape show ?thesis by (simp add: filter_wait_misses)
    qed
  qed
qed

lemmas eval_defs =
  hydrateConnection_def hydrate_loop.simps retryCount_of_def timeout_of_def start_def
  default_manager_def override_manager_def empty_world_def c1_world_def c1_def
  reference_env_def db_call_def unsubscribe_call_def api_call_def wait_def console_log_def
  console_info_def dynamo_send_def registry_unsubscribeAll_def gateway_send_def
  not_found_def misses_def isTTLExpired_def computeTTL_def issued_def
  setConnectionData_def registerConnection_def createApiGatewayManager_def
  unregisterConnection_def sendToConnection_def closeConnection_def promise_all_def
  resolve_def test_ws_scheme_def update_expression_def connect_event_def
  failing_gateway_def failing_db_def failing_registry_def ticking_env_def

text \<open>A stored record whose \<open>ttl\<close> has not passed is returned by the first read.\<close>

lemma hydrateConnection_live_example:
  "hydrateConnection reference_env ''c1'' None
     (start default_manager (c1_world\<lparr>clock := 500\<rparr>)) =
   (Inr c1,
    \<lparr>self = default_manager,
     calls = [DbSend (GetCommand ''Connections'' ''c1'') (Inr (Output (Some c1)))],
     world = c1_world\<lparr>clock := 500\<rparr>\<rparr>)"
  by (simp add: eval_defs)

section \<open>Claims\<close>

text \<open>
  C1. For every retry count \<open>R \<ge> 0\<close>: when the store answers each of the reads for the
  given id with no item (the first in the starting world, each next one in the world the
  previous read and the wait left), \<open>hydrateConnection\<close> sends exactly \<open>R + 1\<close>
  \<open>GetCommand\<close>s to the store, all for that id in the connections table, and then throws
  \<open>ConnectionNotFoundError\<close>. The final world is the one those \<open>R + 1\<close> sends and the
  waits leave.
\<close>

theorem hydrateConnection_never_found:
  assumes R: "0 \<le> retryCount_of options"
    and absent: "\<forall>k. int k \<le> retryCount_of options \<longrightarrow>
                   fst (db_send env (GetCommand (connectionsTable (self s)) cid)
                          (after_misses env (connectionsTable (self s)) cid (timeout_of options) k
                             (world s)))
                   = Inr (Output None)"
  shows "hydrateConnection env cid options s =
           (Inl (ConnectionNotFoundError (''Connection '' @ cid @ '' not found'')),
            s\<lparr>calls := calls s @
                  misses (connectionsTable (self s)) cid (timeout_of options)
                    (nat (retryCount_of options + 1)),
              world := after_misses env (connectionsTable (self s)) cid (timeout_of options)
                         (nat (retryCount_of options + 1)) (world s)\<rparr>) \<and>
         filter is_read (issued s (snd (hydrateConnection env cid options s))) =
           replicate (nat (retryCount_of options + 1))
             (DbSend (GetCommand (connectionsTable (self s)) cid) (Inr (Output None)))"
proof -
  let ?n = "nat (retryCount_of options + 1)"
  have "\<forall>k<?n. fst (db_send env (GetCommand (connectionsTable (self s)) cid)
                       (after_misses env (connectionsTable (self s)) cid (timeout_of options) k
                          (world s)))
                     = Inr (Output None)"
    using absent R by auto
  from hydrate_loop_misses [OF this, of "retryCount_of options" 0]
  have "hydrate_loop env cid (retryCount_of options) (timeout_of options) 0 s =
      (Inr None,
       s\<lparr>calls := calls s @ misses (connectionsTable (self s)) cid (timeout_of options) ?n,
         world := after_misses env (connectionsTable (self s)) cid (timeout_of options) ?n
                    (world s)\<rparr>)"
    by simp
  then show ?thesis
    by (simp add: hydrateConnection_def not_found_def issued_def filter_read_misses)
qed

theorem hydrateConnection_never_found_witness:
  "hydrateConnection ticking_env ''c1'' (Some \<lparr>retryCount = Some 2, timeout = Some 1000\<rparr>)
       (start default_manager empty_world) =
     (Inl (ConnectionNotFoundError ''Connection c1 not found''),
      \<lparr>self = default_manager,
       calls = [DbSend (GetCommand ''Connections'' ''c1'') (Inr (Output None)), SetTimeout 1000,
                DbSend (GetCommand ''Connections'' ''c1'') (Inr (Output None)), SetTimeout 1000,
                DbSend (GetCommand ''Connections'' ''c1'') (Inr (Output None)), SetTimeout 1000],
       world = empty_world\<lparr>clock := 1006\<rparr>\<rparr>)"
proof -
  let ?opts = "Some \<lparr>retryCount = Some 2, timeout = Some 1000\<rparr>"
  let ?s = "start default_manager empty_world"
  have R: "0 \<le> retryCount_of ?opts" by (simp add: retryCount_of_def)
  have absent: "\<forall>k. int k \<le> retryCount_of ?opts \<longrightarrow>
      fst (db_send ticking_env (GetCommand (connectionsTable (self ?s)) ''c1'')
             (after_misses ticking_env (connectionsTable (self ?s)) ''c1'' (timeout_of ?opts) k
                (world ?s)))
      = Inr (Output None)"
  proof (intro allI impI)
    fix k
    have "tables (after_misses ticking_env (connectionsTable (self ?s)) ''c1''
             (timeout_of ?opts) k (world ?s)) = tables (world ?s)"
      by (rule ticking_tables)
    then show "fst (db_send ticking_env (GetCommand (connectionsTable (self ?s)) ''c1'')
             (after_misses ticking_env (connectionsTable (self ?s)) ''c1'' (timeout_of ?opts) k
                (world ?s)))
      = Inr (Output None)"
      by (simp add: ticking_env_def reference_env_def dynamo_send_def start_def empty_world_def)
  qed
  from hydrateConnection_never_found [OF R absent]
  show ?thesis
    by (simp add: retryCount_of_def timeout_of_def start_def default_manager_def
        empty_world_def misses_def numeral_3_eq_3 ticking_env_def reference_env_def
        dynamo_send_def)
qed

text \<open>
  C2. The claim: when no read finds a record, \<open>hydrateConnection\<close> waits \<open>retryCount\<close>
  times, only between attempts. The code waits after every attempt that finds nothing,
  the last one included: with the default options (\<open>retryCount\<close> 0, \<open>timeout\<close> 50) and
  nothing stored, the run is one read and then one wait of 50 before the error.
\<close>

theorem hydrateConnection_waits_after_last_read:
  "hydrateConnection reference_env ''c1'' None (start default_manager empty_world) =
     (Inl (ConnectionNotFoundError ''Connection c1 not found''),
      \<lparr>self = default_manager,
       calls = [DbSend (GetCommand ''Connections'' ''c1'') (Inr (Output None)), SetTimeout 50],
       world = empty_world\<rparr>)"
  by (simp add: eval_defs)



text \<open>
  C4. \<open>registerConnection\<close> sends one \<open>PutCommand\<close> and no other request to the store (no
  read before it). Its item has \<open>data\<close> with the event's endpoint, an empty context
  and \<open>isInitialized\<close> false, whatever else the event carries; \<open>createdAt\<close> the current
  instant; \<open>ttl\<close> the current instant plus the configured seconds when \<open>ttl\<close> is a
  number, and no \<open>ttl\<close> when it is \<^verbatim>\<open>false\<close>. On the table store the put replaces
  whatever the key held.
\<close>

theorem registerConnection_put:
  fixes ev :: "'a IConnectEvent_scheme"
  assumes run: "registerConnection env ev s = (r, s')"
  shows "let d = \<lparr>IConnectionData.endpoint = IConnectEvent.endpoint ev,
                  context' = [], isInitialized = False\<rparr>;
             item =
               \<lparr>id' = connectionId ev, data = d, createdAt = Some (clock (world s)),
                DynamoDBConnection.ttl =
                  (case manager.ttl (self s) of
                     None \<Rightarrow> None
                   | Some seconds \<Rightarrow> Some (clock (world s) + seconds))\<rparr>;
             put = PutCommand (connectionsTable (self s)) item
         in (\<exists>out. issued s s' =
                     (if debug (self s)
                      then [ConsoleLog [Str (''Connected '' @ connectionId ev), Obj d]]
                      else []) @ [DbSend put out] \<and>
                   db_send env put (world s) = (out, world s')) \<and>
            (db_send env = dynamo_send \<longrightarrow>
               world s' =
                 (world s)\<lparr>tables :=
                   (tables (world s))((connectionsTable (self s), connectionId ev) \<mapsto> item)\<rparr>)"
  using run
  by (auto simp: registerConnection_def Let_def db_call_def console_log_def issued_def
      computeTTL_def dynamo_send_def
      split: prod.splits sum.splits option.splits if_splits)

theorem registerConnection_put_witness:
  "registerConnection reference_env connect_event (start default_manager c1_world) =
     (Inr \<lparr>id' = ''c1'',
           data = \<lparr>IConnectionData.endpoint = ''host/path'', context' = [],
                   isInitialized = False\<rparr>,
           createdAt = None, DynamoDBConnection.ttl = None\<rparr>,
      \<lparr>self = default_manager,
       calls = [DbSend (PutCommand ''Connections''
                  \<lparr>id' = ''c1'',
                   data = \<lparr>IConnectionData.endpoint = ''host/path'', context' = [],
                           isInitialized = False\<rparr>,
                   createdAt = Some 1000, DynamoDBConnection.ttl = Some 8200\<rparr>)
                  (Inr (Output None))],
       world = c1_world\<lparr>tables := (tables c1_world)((''Connections'', ''c1'') \<mapsto>
                  \<lparr>id' = ''c1'',
                   data = \<lparr>IConnectionData.endpoint = ''host/path'', context' = [],
                           isInitialized = False\<rparr>,
                   createdAt = Some 1000, DynamoDBConnection.ttl = Some 8200\<rparr>)\<rparr>\<rparr>)"
proof -
  let ?s = "start default_manager c1_world"
  let ?item = "\<lparr>id' = ''c1'',
                   data = \<lparr>IConnectionData.endpoint = ''host/path'', context' = [],
                           isInitialized = False\<rparr>,
                   createdAt = Some 1000, DynamoDBConnection.ttl = Some 8200\<rparr>"
  obtain r s' where run: "registerConnection reference_env connect_event ?s = (r, s')"
    by force
  have db: "db_send reference_env = dynamo_send" by (simp add: reference_env_def)
  have r: "r = Inr \<lparr>id' = ''c1'',
           data = \<lparr>IConnectionData.endpoint = ''host/path'', context' = [],
                   isInitialized = False\<rparr>,
           createdAt = None, DynamoDBConnection.ttl = None\<rparr>"
    and self: "self s' = default_manager" and pre: "calls s' = calls ?s @ issued ?s s'"
    using run
    by (auto simp: registerConnection_def Let_def db_call_def start_def default_manager_def
        connect_event_def reference_env_def dynamo_send_def issued_def split: prod.splits)
  note t = registerConnection_put [OF run, unfolded Let_def]
  from t db have w: "world s' = c1_world\<lparr>tables := (tables c1_world)((''Connections'', ''c1'') \<mapsto> ?item)\<rparr>"
    by (simp add: start_def default_manager_def connect_event_def c1_world_def empty_world_def)
  from t obtain out where tr: "issued ?s s' = [DbSend (PutCommand ''Connections'' ?item) out]"
    and out: "db_send reference_env (PutCommand ''Connections'' ?item) (world ?s) = (out, world s')"
    by (auto simp: start_def default_manager_def connect_event_def c1_world_def empty_world_def)
  from out have "out = Inr (Output None)"
    by (auto simp: reference_env_def dynamo_send_def)
  with tr pre self w have "s' = \<lparr>self = default_manager,
       calls = [DbSend (PutCommand ''Connections'' ?item) (Inr (Output None))],
       world = c1_world\<lparr>tables := (tables c1_world)((''Connections'', ''c1'') \<mapsto> ?item)\<rparr>\<rparr>"
    by (cases s') (simp add: start_def)
  with run r show ?thesis by simp
qed

text \<open>
  C5, as amended. \<open>registerConnection\<close> returns a value exactly when the write succeeds,
  and throws the write's error otherwise. The value returned has the \<open>id\<close> and the \<open>data\<close>
  of the item written and carries neither \<open>createdAt\<close> nor \<open>ttl\<close>; the item written is
  that value with \<open>createdAt\<close>, and with \<open>ttl\<close> exactly when \<open>ttl\<close> is configured, so the
  two differ. The claim as stated (the returned value equals the record written) fails for
  the event of connection \<open>c1\<close> under the default configuration.
\<close>

theorem registerConnection_returns:
  fixes ev :: "'a IConnectEvent_scheme"
  shows "let d = \<lparr>IConnectionData.endpoint = IConnectEvent.endpoint ev,
                  context' = [], isInitialized = False\<rparr>;
             returned = \<lparr>id' = connectionId ev, data = d, createdAt = None,
                         DynamoDBConnection.ttl = None\<rparr>;
             item = returned
               \<lparr>createdAt := Some (clock (world s)),
                DynamoDBConnection.ttl :=
                  (case manager.ttl (self s) of
                     None \<Rightarrow> None
                   | Some seconds \<Rightarrow> Some (computeTTL (clock (world s)) seconds))\<rparr>;
             put = PutCommand (connectionsTable (self s)) item;
             out = fst (db_send env put (world s))
         in fst (registerConnection env ev s) =
              (case out of Inl e \<Rightarrow> Inl e | Inr written \<Rightarrow> Inr returned) \<and>
            filter is_storage (issued s (snd (registerConnection env ev s))) = [DbSend put out] \<and>
            world (snd (registerConnection env ev s)) = snd (db_send env put (world s)) \<and>
            returned \<noteq> item \<and>
            createdAt item \<noteq> None \<and>
            (DynamoDBConnection.ttl item = None \<longleftrightarrow> manager.ttl (self s) = None)"
  by (auto simp: registerConnection_def Let_def db_call_def console_log_def issued_def
      split: prod.splits sum.splits option.splits)

theorem registerConnection_returns_witness:
  "registerConnection reference_env connect_event (start default_manager empty_world) =
     (Inr \<lparr>id' = ''c1'',
           data = \<lparr>IConnectionData.endpoint = ''host/path'', context' = [],
                   isInitialized = False\<rparr>,
           createdAt = None, DynamoDBConnection.ttl = None\<rparr>,
      \<lparr>self = default_manager,
       calls = [DbSend (PutCommand ''Connections''
                  \<lparr>id' = ''c1'',
                   data = \<lparr>IConnectionData.endpoint = ''host/path'', context' = [],
                           isInitialized = False\<rparr>,
                   createdAt = Some 1000, DynamoDBConnection.ttl = Some 8200\<rparr>)
                  (Inr (Output None))],
       world = empty_world\<lparr>tables := (tables empty_world)((''Connections'', ''c1'') \<mapsto>
                  \<lparr>id' = ''c1'',
                   data = \<lparr>IConnectionData.endpoint = ''host/path'', context' = [],
                           isInitialized = False\<rparr>,
                   createdAt = Some 1000, DynamoDBConnection.ttl = Some 8200\<rparr>)\<rparr>\<rparr>) \<and>
   fst (registerConnection (reference_env\<lparr>db_send := failing_db\<rparr>) connect_event
          (start default_manager empty_world)) =
     Inl (Thrown (Some 503) ''ServiceUnavailable'')"
proof -
  let ?s = "start default_manager empty_world"
  let ?env = "reference_env\<lparr>db_send := failing_db\<rparr>"
  let ?returned = "\<lparr>id' = ''c1'',
           data = \<lparr>IConnectionData.endpoint = ''host/path'', context' = [],
                   isInitialized = False\<rparr>,
           createdAt = None, DynamoDBConnection.ttl = None\<rparr>"
  let ?item = "\<lparr>id' = ''c1'',
                   data = \<lparr>IConnectionData.endpoint = ''host/path'', context' = [],
                           isInitialized = False\<rparr>,
                   createdAt = Some 1000, DynamoDBConnection.ttl = Some 8200\<rparr>"
  let ?put = "PutCommand ''Connections'' ?item"
  let ?w = "empty_world\<lparr>tables := (tables empty_world)((''Connections'', ''c1'') \<mapsto> ?item)\<rparr>"
  note ok = registerConnection_returns [of connect_event ?s reference_env, unfolded Let_def]
  note ko = registerConnection_returns [of connect_event ?s ?env, unfolded Let_def]
  have send: "db_send reference_env ?put empty_world = (Inr (Output None), ?w)"
    by (simp add: reference_env_def dynamo_send_def)
  obtain r s' where run: "registerConnection reference_env connect_event ?s = (r, s')"
    by force
  from ok run send have r: "r = Inr ?returned"
    and tr: "filter is_storage (issued ?s s') = [DbSend ?put (Inr (Output None))]"
    and w: "world s' = ?w"
    by (simp_all add: start_def default_manager_def connect_event_def empty_world_def
        computeTTL_def)
  have self: "self s' = default_manager"
    and calls: "calls s' = filter is_storage (issued ?s s')"
    using run
    by (auto simp: registerConnection_def Let_def db_call_def start_def default_manager_def
        issued_def split: prod.splits sum.splits)
  from tr w self calls have "s' = \<lparr>self = default_manager,
       calls = [DbSend ?put (Inr (Output None))], world = ?w\<rparr>"
    by (cases s') simp
  with run r have first: "registerConnection reference_env connect_event ?s =
      (Inr ?returned, \<lparr>self = default_manager,
       calls = [DbSend ?put (Inr (Output None))], world = ?w\<rparr>)"
    by simp
  from ko have second: "fst (registerConnection ?env connect_event ?s) =
      Inl (Thrown (Some 503) ''ServiceUnavailable'')"
    by (simp add: failing_db_def)
  from first second show ?thesis by simp
qed

theorem registerConnection_returns_counterexample:
  "fst (registerConnection reference_env connect_event (start default_manager empty_world)) =
     Inr \<lparr>id' = ''c1'',
          data = \<lparr>IConnectionData.endpoint = ''host/path'', context' = [],
                  isInitialized = False\<rparr>,
          createdAt = None, DynamoDBConnection.ttl = None\<rparr> \<and>
   calls (snd (registerConnection reference_env connect_event (start default_manager empty_world))) =
     [DbSend (PutCommand ''Connections''
        \<lparr>id' = ''c1'',
         data = \<lparr>IConnectionData.endpoint = ''host/path'', context' = [],
                 isInitialized = False\<rparr>,
         createdAt = Some 1000, DynamoDBConnection.ttl = Some 8200\<rparr>) (Inr (Output None))] \<and>
   fst (registerConnection reference_env connect_event (start default_manager empty_world)) \<noteq>
     Inr \<lparr>id' = ''c1'',
          data = \<lparr>IConnectionData.endpoint = ''host/path'', context' = [],
                  isInitialized = False\<rparr>,
          createdAt = Some 1000, DynamoDBConnection.ttl = Some 8200\<rparr>"
  by (simp add: eval_defs Let_def)

text \<open>
  C6. \<open>setConnectionData\<close> sends one \<open>UpdateCommand\<close> for the connection's id, with the
  expression \<^verbatim>\<open>set #data = :data\<close>, and nothing else. On the table store, when the key
  holds an item, the call succeeds and the world afterwards differs only in that item's
  \<open>data\<close>: its \<open>createdAt\<close> and \<open>ttl\<close>, every other item and the rest of the world are as
  before.
\<close>

theorem setConnectionData_frame:
  assumes run: "setConnectionData env newData connection s = (r, s')"
  shows "let key = (connectionsTable (self s), id' connection);
             update = UpdateCommand (connectionsTable (self s)) (id' connection)
                        ''set #data = :data'' [('':data'', newData)] [(''#data'', ''data'')]
         in (\<exists>out. issued s s' = [DbSend update out] \<and>
                   db_send env update (world s) = (out, world s')) \<and>
            (db_send env = dynamo_send \<longrightarrow>
               (\<forall>item. tables (world s) key = Some item \<longrightarrow>
                  r = Inr () \<and>
                  world s' =
                    (world s)\<lparr>tables := (tables (world s))(key \<mapsto> item\<lparr>data := newData\<rparr>)\<rparr>))"
  using run
  by (auto simp: setConnectionData_def Let_def db_call_def issued_def dynamo_send_def
      update_expression_def
      split: prod.splits sum.splits option.splits if_splits)

theorem setConnectionData_frame_witness:
  "fst (setConnectionData reference_env
          \<lparr>IConnectionData.endpoint = ''host/path'', context' = [(''user'', ''u1'')],
           isInitialized = True\<rparr> c1 (start default_manager c1_world)) = Inr () \<and>
   world (snd (setConnectionData reference_env
          \<lparr>IConnectionData.endpoint = ''host/path'', context' = [(''user'', ''u1'')],
           isInitialized = True\<rparr> c1 (start default_manager c1_world))) =
     c1_world\<lparr>tables := (tables c1_world)((''Connections'', ''c1'') \<mapsto>
       \<lparr>id' = ''c1'',
        data = \<lparr>IConnectionData.endpoint = ''host/path'', context' = [(''user'', ''u1'')],
                isInitialized = True\<rparr>,
        createdAt = Some 100, DynamoDBConnection.ttl = Some 900\<rparr>)\<rparr>"
proof -
  let ?d = "\<lparr>IConnectionData.endpoint = ''host/path'', context' = [(''user'', ''u1'')],
           isInitialized = True\<rparr>"
  let ?s = "start default_manager c1_world"
  obtain r s' where run: "setConnectionData reference_env ?d c1 ?s = (r, s')" by force
  have db: "db_send reference_env = dynamo_send" by (simp add: reference_env_def)
  have stored: "tables (world ?s) (connectionsTable (self ?s), id' c1) = Some c1"
    by (simp add: start_def default_manager_def c1_world_def c1_def)
  from setConnectionData_frame [OF run] db stored run
  show ?thesis
    by (simp add: Let_def start_def default_manager_def c1_def)
qed

text \<open>
  C7. With a client configured, when the transport send is rejected with an error \<open>e\<close>:
  if \<open>e.statusCode\<close> is 410, \<open>sendToConnection\<close> continues as \<open>unregisterConnection\<close>
  (one delete of the record, one \<open>unsubscribeAllByConnectionId\<close>) and its outcome is that
  of the two requests, not \<open>e\<close>; otherwise it throws \<open>e\<close> and makes no further call.
\<close>

theorem sendToConnection_gone:
  assumes client: "apiGatewayManager (self s) = Some client"
    and send: "api_send env client (PostToConnectionCommand (id' connection) payload) (world s)
                 = (Inl e, w)"
  shows "let post = ApiSend client (PostToConnectionCommand (id' connection) payload) (Inl e);
             s1 = s\<lparr>calls := calls s @ [post], world := w\<rparr>
         in if statusCode e = Some 410 then
              sendToConnection env connection payload s = unregisterConnection env connection s1 \<and>
              (\<exists>r1 r2 s'.
                 sendToConnection env connection payload s =
                   (promise_all (first_rejection env (world s')) r1 r2, s') \<and>
                 issued s s' =
                   [post, DbSend (DeleteCommand (connectionsTable (self s)) (id' connection)) r1,
                    UnsubscribeAll (id' connection) r2])
            else sendToConnection env connection payload s = (Inl e, s1)"
  using client send
  by (auto simp: sendToConnection_def createApiGatewayManager_def api_call_def Let_def
      unregisterConnection_def db_call_def unsubscribe_call_def issued_def
      split: prod.splits)

theorem sendToConnection_gone_witness:
  "sendToConnection reference_env c1 ''hello'' (start override_manager c1_world) =
     (Inr (),
      \<lparr>self = override_manager,
       calls = [ApiSend (ApiGatewayManagementApiClient ''http://localhost:3001'')
                  (PostToConnectionCommand ''c1'' ''hello'') (Inl (Thrown (Some 410) ''GoneException'')),
                DbSend (DeleteCommand ''Connections'' ''c1'') (Inr (Output None)),
                UnsubscribeAll ''c1'' (Inr ())],
       world = c1_world\<lparr>tables := (tables c1_world)((''Connections'', ''c1'') := None),
                         registry := [(''c2'', ''sub2'')]\<rparr>\<rparr>) \<and>
   sendToConnection (reference_env\<lparr>api_send := failing_gateway\<rparr>) c1 ''hello''
       (start override_manager c1_world) =
     (Inl (Thrown (Some 500) ''InternalServerError''),
      \<lparr>self = override_manager,
       calls = [ApiSend (ApiGatewayManagementApiClient ''http://localhost:3001'')
                  (PostToConnectionCommand ''c1'' ''hello'')
                  (Inl (Thrown (Some 500) ''InternalServerError''))],
       world = c1_world\<rparr>)"
proof -
  let ?s = "start override_manager c1_world"
  let ?client = "ApiGatewayManagementApiClient ''http://localhost:3001''"
  let ?env = "reference_env\<lparr>api_send := failing_gateway\<rparr>"
  have client: "apiGatewayManager (self ?s) = Some ?client"
    by (simp add: start_def override_manager_def)
  have gone: "api_send reference_env ?client (PostToConnectionCommand (id' c1) ''hello'') (world ?s)
      = (Inl (Thrown (Some 410) ''GoneException''), c1_world)"
    by (simp add: reference_env_def gateway_send_def start_def c1_world_def empty_world_def)
  have other: "api_send ?env ?client (PostToConnectionCommand (id' c1) ''hello'') (world ?s)
      = (Inl (Thrown (Some 500) ''InternalServerError''), c1_world)"
    by (simp add: failing_gateway_def start_def)
  have "sendToConnection reference_env c1 ''hello'' ?s =
      unregisterConnection reference_env c1
        (?s\<lparr>calls := calls ?s @ [ApiSend ?client (PostToConnectionCommand (id' c1) ''hello'')
             (Inl (Thrown (Some 410) ''GoneException''))], world := c1_world\<rparr>)"
    using sendToConnection_gone [OF client gone] by (simp add: Let_def)
  moreover have "sendToConnection ?env c1 ''hello'' ?s =
      (Inl (Thrown (Some 500) ''InternalServerError''),
       ?s\<lparr>calls := calls ?s @ [ApiSend ?client (PostToConnectionCommand (id' c1) ''hello'')
             (Inl (Thrown (Some 500) ''InternalServerError''))], world := c1_world\<rparr>)"
    using sendToConnection_gone [OF client other] by (simp add: Let_def)
  ultimately show ?thesis
    by (simp add: unregisterConnection_def db_call_def unsubscribe_call_def promise_all_def
        reference_env_def dynamo_send_def registry_unsubscribeAll_def start_def
        override_manager_def default_manager_def c1_def c1_world_def empty_world_def)
qed

text \<open>
  C8. \<open>closeConnection\<close> sends nothing to the store and nothing to the subscription
  registry. Apart from console output its only call is the \<open>DeleteConnectionCommand\<close> for
  the connection's id (none at all when no client is configured), and the world changes
  only as that send changes it; with the reference gateway the tables and the registry
  are as before.
\<close>

theorem closeConnection_transport_only:
  assumes run: "closeConnection env connection s = (r, s')"
  shows "filter is_storage (issued s s') = [] \<and> filter is_registry (issued s s') = [] \<and>
         (case apiGatewayManager (self s) of
            Some client \<Rightarrow>
              filter (\<lambda>ev. \<not> is_console ev) (issued s s') =
                [ApiSend client (DeleteConnectionCommand (id' connection)) r] \<and>
              api_send env client (DeleteConnectionCommand (id' connection)) (world s) = (r, world s')
          | None \<Rightarrow>
              filter (\<lambda>ev. \<not> is_console ev) (issued s s') = [] \<and> world s' = world s) \<and>
         (api_send env = gateway_send \<longrightarrow>
            tables (world s') = tables (world s) \<and> registry (world s') = registry (world s))"
  using run
  by (auto simp: closeConnection_def createApiGatewayManager_def api_call_def Let_def
      console_log_def console_info_def issued_def resolve_def gateway_send_def
      split: prod.splits option.splits if_splits gw_command.splits)

theorem closeConnection_transport_only_witness:
  "closeConnection reference_env c1
     (start (override_manager\<lparr>debug := True\<rparr>) (c1_world\<lparr>sessions := [''c1'']\<rparr>)) =
     (Inr (),
      \<lparr>self = override_manager\<lparr>debug := True\<rparr>,
       calls = [ConsoleLog [Str ''Disconnected '', Str ''c1''],
                ApiSend (ApiGatewayManagementApiClient ''http://localhost:3001'')
                  (DeleteConnectionCommand ''c1'') (Inr ())],
       world = c1_world\<lparr>sessions := []\<rparr>\<rparr>) \<and>
   tables (c1_world\<lparr>sessions := []\<rparr>) = tables c1_world \<and>
   registry (c1_world\<lparr>sessions := []\<rparr>) = registry c1_world"
proof -
  let ?s = "start (override_manager\<lparr>debug := True\<rparr>) (c1_world\<lparr>sessions := [''c1'']\<rparr>)"
  let ?s' = "\<lparr>self = override_manager\<lparr>debug := True\<rparr>,
       calls = [ConsoleLog [Str ''Disconnected '', Str ''c1''],
                ApiSend (ApiGatewayManagementApiClient ''http://localhost:3001'')
                  (DeleteConnectionCommand ''c1'') (Inr ())],
       world = c1_world\<lparr>sessions := []\<rparr>\<rparr>"
  have run: "closeConnection reference_env c1 ?s = (Inr (), ?s')"
    by (simp add: eval_defs Let_def)
  have gw: "api_send reference_env = gateway_send" by (simp add: reference_env_def)
  from closeConnection_transport_only [OF run] gw run
  show ?thesis by (simp add: start_def)
qed

text \<open>
  C9. \<open>unregisterConnection\<close> issues the delete of the record and
  \<open>unsubscribeAllByConnectionId\<close>, whatever the outcome of the delete, and nothing else. It
  succeeds exactly when both succeed; when it fails, its error is that of one of the two,
  and the world is left as the two requests left it.
\<close>

theorem unregisterConnection_both:
  assumes run: "unregisterConnection env connection s = (r, s')"
  shows "\<exists>r1 r2 w1.
           db_send env (DeleteCommand (connectionsTable (self s)) (id' connection)) (world s)
             = (r1, w1) \<and>
           unsubscribeAllByConnectionId env (id' connection) w1 = (r2, world s') \<and>
           issued s s' =
             [DbSend (DeleteCommand (connectionsTable (self s)) (id' connection)) r1,
              UnsubscribeAll (id' connection) r2] \<and>
           (r = Inr () \<longleftrightarrow> (\<exists>v. r1 = Inr v) \<and> r2 = Inr ()) \<and>
           (\<forall>e. r = Inl e \<longrightarrow> r1 = Inl e \<or> r2 = Inl e)"
  using run
  by (auto simp: unregisterConnection_def db_call_def unsubscribe_call_def issued_def
      promise_all_def split: prod.splits sum.splits if_splits)

theorem unregisterConnection_both_witness:
  "unregisterConnection (reference_env\<lparr>unsubscribeAllByConnectionId := failing_registry\<rparr>) c1
       (start default_manager c1_world) =
     (Inl (Thrown None ''unsubscribe failed''),
      \<lparr>self = default_manager,
       calls = [DbSend (DeleteCommand ''Connections'' ''c1'') (Inr (Output None)),
                UnsubscribeAll ''c1'' (Inl (Thrown None ''unsubscribe failed''))],
       world = c1_world\<lparr>tables := (tables c1_world)((''Connections'', ''c1'') := None)\<rparr>\<rparr>)"
proof -
  let ?env = "reference_env\<lparr>unsubscribeAllByConnectionId := failing_registry\<rparr>"
  let ?s = "start default_manager c1_world"
  obtain r s' where run: "unregisterConnection ?env c1 ?s = (r, s')" by force
  from unregisterConnection_both [OF run] obtain r1 r2 w1 where
    d: "db_send ?env (DeleteCommand (connectionsTable (self ?s)) (id' c1)) (world ?s) = (r1, w1)"
    and u: "unsubscribeAllByConnectionId ?env (id' c1) w1 = (r2, world s')"
    and tr: "issued ?s s' = [DbSend (DeleteCommand (connectionsTable (self ?s)) (id' c1)) r1,
              UnsubscribeAll (id' c1) r2]"
    and ok: "r = Inr () \<longleftrightarrow> (\<exists>v. r1 = Inr v) \<and> r2 = Inr ()"
    and err: "\<forall>e. r = Inl e \<longrightarrow> r1 = Inl e \<or> r2 = Inl e"
    by blast
  from d have r1: "r1 = Inr (Output None)"
    and w1: "w1 = c1_world\<lparr>tables := (tables c1_world)((''Connections'', ''c1'') := None)\<rparr>"
    by (auto simp: reference_env_def dynamo_send_def start_def default_manager_def c1_def)
  from u have r2: "r2 = Inl (Thrown None ''unsubscribe failed'')" and w': "world s' = w1"
    by (auto simp: failing_registry_def)
  from ok r2 have "r \<noteq> Inr ()" by simp
  then obtain e where "r = Inl e" by (cases r) auto
  with err r1 r2 have r: "r = Inl (Thrown None ''unsubscribe failed'')" by auto
  have self: "self s' = self ?s" and calls: "calls s' = calls ?s @ issued ?s s'"
    using run
    by (auto simp: unregisterConnection_def db_call_def unsubscribe_call_def issued_def
        split: prod.splits)
  have "s' = \<lparr>self = default_manager,
       calls = [DbSend (DeleteCommand ''Connections'' ''c1'') (Inr (Output None)),
                UnsubscribeAll ''c1'' (Inl (Thrown None ''unsubscribe failed''))],
       world = c1_world\<lparr>tables := (tables c1_world)((''Connections'', ''c1'') := None)\<rparr>\<rparr>"
    using self calls tr r1 r2 w' w1
    by (cases s') (simp add: start_def default_manager_def c1_def)
  with run r show ?thesis by simp
qed

text \<open>
  C10. A configured client is returned as it is and the state is unchanged. With none
  configured, \<open>createApiGatewayManager\<close> logs the endpoint and throws the
  \<open>ReferenceError\<close> for \<open>endpoint1\<close>: no client is constructed or stored, and
  \<open>sendToConnection\<close> and \<open>closeConnection\<close> throw that error without sending
  anything.
\<close>

theorem createApiGatewayManager_no_override:
  "(apiGatewayManager (self s) = None \<longrightarrow>
      createApiGatewayManager endpoint0 s =
        (Inl (ReferenceError ''endpoint1 is not defined''),
         s\<lparr>calls := calls s @ [ConsoleInfo [Str ''endpoint'', Str endpoint0]]\<rparr>) \<and>
      sendToConnection env connection payload s =
        (Inl (ReferenceError ''endpoint1 is not defined''),
         s\<lparr>calls := calls s @
              [ConsoleInfo [Str ''endpoint'', Str (IConnectionData.endpoint (data connection))]]\<rparr>) \<and>
      closeConnection env connection s =
        (Inl (ReferenceError ''endpoint1 is not defined''),
         s\<lparr>calls := calls s @
              (if debug (self s) then [ConsoleLog [Str ''Disconnected '', Str (id' connection)]]
               else []) @
              [ConsoleInfo [Str ''endpoint'', Str (IConnectionData.endpoint (data connection))]]\<rparr>)) \<and>
   (\<forall>client. apiGatewayManager (self s) = Some client \<longrightarrow>
      createApiGatewayManager endpoint0 s = (Inr client, s))"
  by (auto simp: createApiGatewayManager_def sendToConnection_def closeConnection_def Let_def
      console_info_def console_log_def resolve_def split: prod.splits)

theorem createApiGatewayManager_no_override_witness:
  "createApiGatewayManager ''host/path'' (start default_manager c1_world) =
     (Inl (ReferenceError ''endpoint1 is not defined''),
      \<lparr>self = default_manager, calls = [ConsoleInfo [Str ''endpoint'', Str ''host/path'']],
       world = c1_world\<rparr>) \<and>
   sendToConnection reference_env c1 ''hello'' (start default_manager c1_world) =
     (Inl (ReferenceError ''endpoint1 is not defined''),
      \<lparr>self = default_manager, calls = [ConsoleInfo [Str ''endpoint'', Str ''host/path'']],
       world = c1_world\<rparr>) \<and>
   closeConnection reference_env c1 (start default_manager c1_world) =
     (Inl (ReferenceError ''endpoint1 is not defined''),
      \<lparr>self = default_manager, calls = [ConsoleInfo [Str ''endpoint'', Str ''host/path'']],
       world = c1_world\<rparr>) \<and>
   createApiGatewayManager ''host/path'' (start override_manager c1_world) =
     (Inr (ApiGatewayManagementApiClient ''http://localhost:3001''),
      start override_manager c1_world)"
proof -
  have none: "apiGatewayManager (self (start default_manager c1_world)) = None"
    by (simp add: start_def default_manager_def)
  have some: "apiGatewayManager (self (start override_manager c1_world)) =
      Some (ApiGatewayManagementApiClient ''http://localhost:3001'')"
    by (simp add: start_def override_manager_def)
  from createApiGatewayManager_no_override
         [of "start default_manager c1_world" "''host/path''" reference_env c1 "''hello''"]
       createApiGatewayManager_no_override
         [of "start override_manager c1_world" "''host/path''" reference_env c1 "''hello''"]
       none some
  show ?thesis
    by (simp add: start_def default_manager_def c1_def)
qed

end
